theory Spec2Isabelle
  imports Complex_Main
begin

section \<open>Python values: exceptions and dictionaries\<close>

text \<open>
  The scoring code is Python. A raised exception is a value \<open>Inl e\<close> of the result
  type \<open>error + 'a\<close>; a returned value is \<open>Inr v\<close>. Python floats are modelled by
  the reals (rounding is not modelled). The numbers of the metric calculators are
  reals, the ints being the integers among them; a match duration in seconds that is
  printed or compared by the classifier and the safety checker is an \<open>int\<close>.
  \<open>a / b\<close> is true division, which raises \<open>ZeroDivisionError\<close> for a zero divisor
  whether the operands are ints or floats. Where a method calls a function that the
  repository does not define, the function is a parameter of the model.
\<close>

datatype error = ZeroDivisionError | KeyError string

text \<open>A dict with string keys: \<open>d[k]\<close> raises \<open>KeyError\<close> on a missing key.\<close>

type_synonym 'a dict = "string \<rightharpoonup> 'a"

definition getitem :: "'a dict \<Rightarrow> string \<Rightarrow> error + 'a" where
  "getitem d k = (case d k of None \<Rightarrow> Inl (KeyError k) | Some v \<Rightarrow> Inr v)"

text \<open>Sequencing of two computations that may raise: the first exception wins.\<close>

definition bind_err :: "error + 'a \<Rightarrow> ('a \<Rightarrow> error + 'b) \<Rightarrow> error + 'b" where
  "bind_err r f = (case r of Inl e \<Rightarrow> Inl e | Inr v \<Rightarrow> f v)"

text \<open>True division \<open>a / b\<close>.\<close>

definition truediv :: "real \<Rightarrow> real \<Rightarrow> error + real" where
  "truediv a b = (if b = 0 then Inl ZeroDivisionError else Inr (a / b))"

section \<open>analysis/exceptional.py: the exceptional-performance classifier\<close>

record ExceptionalMetrics =
  combat_score :: real
  farm_efficiency :: real
  map_impact :: real
  objective_control :: real
  teamfight_contribution :: real
  vision_control :: real
  utility_score :: real
  game_impact :: real

text \<open>\<open>ExceptionalAnalyzer.default_config\<close>; the config is a dict.\<close>

definition ExceptionalAnalyzer_default_config :: "real dict" where
  "ExceptionalAnalyzer_default_config = map_of
     [(''exceptional_threshold'', 0.90),
      (''excellent_threshold'', 0.80),
      (''very_good_threshold'', 0.70),
      (''max_mmr_gain'', 5),
      (''min_game_duration'', 1500),
      (''min_teamfight_participation'', 0.6),
      (''max_consecutive_exceptional'', 3)]"

text \<open>
  \<open>determine_tier_and_adjustment(self, overall_score, metrics, match_data)\<close>. The
  config keys are read in the order the branches reach them; \<open>match_data\<close> is not
  read.
\<close>

definition determine_tier_and_adjustment ::
  "real dict \<Rightarrow> real \<Rightarrow> ExceptionalMetrics \<Rightarrow> int dict \<Rightarrow> error + (string \<times> real)" where
  "determine_tier_and_adjustment config overall_score metrics match_data =
     bind_err (getitem config ''exceptional_threshold'') (\<lambda>exceptional_threshold.
     bind_err
       (if overall_score \<ge> exceptional_threshold
        then (if list_all (\<lambda>v. v \<ge> 0.85)
                   [combat_score metrics, teamfight_contribution metrics, game_impact metrics]
              then bind_err (getitem config ''max_mmr_gain'') (\<lambda>max_mmr_gain.
                     Inr (Some (''exceptional'', min max_mmr_gain ((overall_score - 0.9) * 50))))
              else Inr None)
        else Inr None)
       (\<lambda>returned. case returned of
          Some r \<Rightarrow> Inr r
        | None \<Rightarrow>
            bind_err (getitem config ''excellent_threshold'') (\<lambda>excellent_threshold.
            if overall_score \<ge> excellent_threshold then Inr (''excellent'', 0.0)
            else
              bind_err (getitem config ''very_good_threshold'') (\<lambda>very_good_threshold.
              if overall_score \<ge> very_good_threshold
              then Inr (''very_good'', max (-10) ((overall_score - 0.7) * -50))
              else Inr (''normal'', -25.0)))))"






text \<open>\<open>calculate_game_impact(self, metrics)\<close> and its local weight table.\<close>

definition game_impact_weights :: "(string \<times> real) list" where
  "game_impact_weights =
     [(''combat'', 0.25), (''farm'', 0.15), (''map_impact'', 0.15), (''objective'', 0.15),
      (''teamfight'', 0.15), (''vision'', 0.08), (''utility'', 0.07)]"

definition calculate_game_impact :: "ExceptionalMetrics \<Rightarrow> real" where
  "calculate_game_impact metrics =
     (let weights = (\<lambda>k. the (map_of game_impact_weights k)) in
      sum_list
        [combat_score metrics * weights ''combat'',
         farm_efficiency metrics * weights ''farm'',
         map_impact metrics * weights ''map_impact'',
         objective_control metrics * weights ''objective'',
         teamfight_contribution metrics * weights ''teamfight'',
         vision_control metrics * weights ''vision'',
         utility_score metrics * weights ''utility''])"




section \<open>analysis/metrics.py: the sub-score calculators\<close>

text \<open>
  The dataclass \<open>GameMetrics\<close>. Every Python number is a real here; the fields
  annotated \<open>int\<close> hold the integers among them. \<open>death_impact_score\<close> is not a field
  of the dataclass: \<open>calculate_survival_score\<close> asks \<open>hasattr\<close> for it, so it is
  present (\<open>Some\<close>) only on an object that was given the attribute.
\<close>

record GameMetrics =
  kills :: real
  deaths :: real
  assists :: real
  last_hits :: real
  denies :: real
  gpm :: real
  xpm :: real
  hero_damage :: real
  tower_damage :: real
  hero_healing :: real
  stun_duration :: real
  camps_stacked :: real
  runes_collected :: real
  wards_placed :: real
  wards_destroyed :: real
  teamfight_participation :: real
  death_impact_score :: "real option"

text \<open>
  \<open>game_data\<close>, a dict: its numeric entries by key, and the entry
  \<open>'lane_participation'\<close>, itself a dict, when present.
\<close>

record GameData =
  entries :: "real dict"
  lane_participation :: "(string \<times> real) list option"

text \<open>\<open>d.get(k, default)\<close>.\<close>

definition dict_get :: "'a dict \<Rightarrow> string \<Rightarrow> 'a \<Rightarrow> 'a" where
  "dict_get d k fallback = (case d k of None \<Rightarrow> fallback | Some v \<Rightarrow> v)"

text \<open>\<open>MetricsCalculator.__init__\<close>: \<open>self.role_weights\<close>.\<close>

definition role_weights :: "(string \<times> (string \<times> real) list) list" where
  "role_weights =
     [(''carry'', [(''farm_efficiency'', 0.3), (''damage_output'', 0.3),
                   (''survival'', 0.2), (''objective_focus'', 0.2)]),
      (''mid'', [(''farm_efficiency'', 0.25), (''damage_output'', 0.3),
                 (''map_presence'', 0.25), (''objective_focus'', 0.2)]),
      (''offlane'', [(''space_creation'', 0.3), (''survival'', 0.25),
                     (''damage_output'', 0.25), (''objective_focus'', 0.2)]),
      (''soft_support'', [(''map_presence'', 0.3), (''utility'', 0.3),
                          (''teamfight_impact'', 0.2), (''vision_control'', 0.2)]),
      (''hard_support'', [(''vision_control'', 0.3), (''utility'', 0.3),
                          (''survival'', 0.2), (''teamfight_impact'', 0.2)])]"

text \<open>
  \<open>calculate_farming_efficiency\<close>. The inner dict \<open>{'cs': c, 'gpm': g}\<close> of
  \<open>role_expectations\<close> is the pair \<open>(c, g)\<close>.
\<close>

definition role_expectations :: "(string \<times> (real \<times> real)) list" where
  "role_expectations =
     [(''carry'', (10, 600)), (''mid'', (8, 550)), (''offlane'', (6, 450)),
      (''soft_support'', (2, 300)), (''hard_support'', (1, 250))]"

definition calculate_farming_efficiency :: "GameMetrics \<Rightarrow> real \<Rightarrow> string \<Rightarrow> error + real" where
  "calculate_farming_efficiency metrics game_duration role =
     (let minutes = game_duration / 60 in
      bind_err (getitem (map_of role_expectations) role) (\<lambda>(expected_cs, expected_gpm).
      bind_err (truediv (last_hits metrics) (expected_cs * minutes)) (\<lambda>cs_ratio.
      let cs_score = min 1.0 cs_ratio in
      bind_err (truediv (gpm metrics) expected_gpm) (\<lambda>gpm_ratio.
      let gpm_score = min 1.0 gpm_ratio in
      Inr ((cs_score + gpm_score) / 2)))))"

text \<open>\<open>calculate_combat_efficiency\<close>.\<close>

definition role_damage_expectations :: "(string \<times> real) list" where
  "role_damage_expectations =
     [(''carry'', 0.35), (''mid'', 0.30), (''offlane'', 0.20),
      (''soft_support'', 0.10), (''hard_support'', 0.05)]"

definition calculate_combat_efficiency :: "GameMetrics \<Rightarrow> real \<Rightarrow> string \<Rightarrow> error + real" where
  "calculate_combat_efficiency metrics team_damage role =
     bind_err (truediv (hero_damage metrics) (max 1 team_damage)) (\<lambda>damage_share.
     bind_err (truediv (kills metrics + assists metrics) (max 1 (deaths metrics))) (\<lambda>kda.
     bind_err (getitem (map_of role_damage_expectations) role) (\<lambda>expectation.
     bind_err (truediv damage_share expectation) (\<lambda>damage_ratio.
     let damage_score = min 1.0 damage_ratio;
         kda_score = min 1.0 (kda / 4)
     in Inr (damage_score * 0.6 + kda_score * 0.4)))))"

text \<open>\<open>calculate_vision_score\<close>.\<close>

definition calculate_vision_score :: "GameMetrics \<Rightarrow> real \<Rightarrow> error + real" where
  "calculate_vision_score metrics game_duration =
     (let minutes = game_duration / 60 in
      bind_err (truediv (wards_placed metrics) minutes) (\<lambda>placed_rate.
      bind_err (truediv (wards_destroyed metrics) minutes) (\<lambda>destroyed_rate.
      let ward_score = placed_rate * 0.6 + destroyed_rate * 0.4
      in Inr (min 1.0 (ward_score / 2)))))"

text \<open>\<open>calculate_utility_score\<close>.\<close>

definition calculate_utility_score :: "GameMetrics \<Rightarrow> real \<Rightarrow> error + real" where
  "calculate_utility_score metrics team_fights =
     bind_err (truediv (stun_duration metrics) (team_fights * 5)) (\<lambda>stun_ratio.
     let stun_score = min 1.0 stun_ratio;
         healing_score = min 1.0 (hero_healing metrics / 5000);
         teamfight_score = min 1.0 (teamfight_participation metrics)
     in Inr (stun_score * 0.4 + healing_score * 0.3 + teamfight_score * 0.3))"

text \<open>
  \<open>calculate_survival_score\<close>. The death rate is computed before the threshold of
  the role is looked up.
\<close>

definition role_death_thresholds :: "(string \<times> real) list" where
  "role_death_thresholds =
     [(''carry'', 0.12), (''mid'', 0.14), (''offlane'', 0.16),
      (''soft_support'', 0.2), (''hard_support'', 0.25)]"

definition calculate_survival_score :: "GameMetrics \<Rightarrow> real \<Rightarrow> string \<Rightarrow> error + real" where
  "calculate_survival_score metrics game_duration role =
     (let minutes = game_duration / 60 in
      bind_err (truediv (deaths metrics) minutes) (\<lambda>death_rate.
      bind_err (getitem (map_of role_death_thresholds) role) (\<lambda>threshold.
      bind_err (truediv death_rate threshold) (\<lambda>rate_ratio.
      let survival_score = max 0 (1 - rate_ratio);
          survival_score = (case death_impact_score metrics of
                              Some impact \<Rightarrow> survival_score * (1 + impact)
                            | None \<Rightarrow> survival_score)
      in Inr (min 1.0 survival_score)))))"

text \<open>\<open>calculate_map_presence\<close>.\<close>

definition calculate_map_presence :: "GameMetrics \<Rightarrow> GameData \<Rightarrow> error + real" where
  "calculate_map_presence metrics game_data =
     (let tp_score = min 1.0 (dict_get (entries game_data) ''teleports_used'' 0 / 10);
          lane_participation_dict =
            (case lane_participation game_data of None \<Rightarrow> [] | Some d \<Rightarrow> d);
          lane_presence = sum_list (map snd lane_participation_dict) / 3;
          objective_presence = dict_get (entries game_data) ''objective_presence'' 0.5
      in Inr (tp_score * 0.3 + lane_presence * 0.4 + objective_presence * 0.3))"

text \<open>\<open>calculate_space_creation\<close>.\<close>

definition calculate_space_creation :: "GameMetrics \<Rightarrow> GameData \<Rightarrow> error + real" where
  "calculate_space_creation metrics game_data =
     (let attention_score = dict_get (entries game_data) ''enemy_attention_score'' 0.5 in
      bind_err (getitem (entries game_data) ''duration'') (\<lambda>duration.
      bind_err (truediv (tower_damage metrics) (max 1 duration)) (\<lambda>tower_pressure.
      let rotations_forced = dict_get (entries game_data) ''rotations_forced'' 0 / 10;
          space_score = attention_score * 0.4
                        + min 1.0 (tower_pressure / 100) * 0.3
                        + min 1.0 rotations_forced * 0.3
      in Inr (min 1.0 space_score))))"

text \<open>\<open>calculate_objective_focus\<close>.\<close>

definition calculate_objective_focus :: "GameMetrics \<Rightarrow> GameData \<Rightarrow> error + real" where
  "calculate_objective_focus metrics game_data =
     bind_err (truediv (tower_damage metrics)
                 (max 1 (dict_get (entries game_data) ''team_tower_damage'' 1)))
       (\<lambda>tower_contribution.
     let roshan_score = dict_get (entries game_data) ''roshan_participation'' 0.0;
         objective_control_score = dict_get (entries game_data) ''objective_control'' 0.0
     in Inr (tower_contribution * 0.5 + roshan_score * 0.3 + objective_control_score * 0.2))"

text \<open>\<open>calculate_teamfight_impact\<close>.\<close>

definition calculate_teamfight_impact :: "GameMetrics \<Rightarrow> GameData \<Rightarrow> error + real" where
  "calculate_teamfight_impact metrics game_data =
     (let participation = teamfight_participation metrics;
          fight_impact = dict_get (entries game_data) ''teamfight_damage_share'' 0.0 in
      bind_err (truediv (stun_duration metrics)
                  (max 1 (dict_get (entries game_data) ''total_fight_duration'' 1)))
        (\<lambda>utility_impact.
      Inr (participation * 0.4 + fight_impact * 0.3 + utility_impact * 0.3)))"

text \<open>
  A list of computations, evaluated left to right; the first exception ends it
  (a list display, a dict display or a comprehension whose items may raise).
\<close>

fun collect :: "(error + 'a) list \<Rightarrow> error + 'a list" where
  "collect [] = Inr []"
| "collect (r # rs) =
     bind_err r (\<lambda>v. bind_err (collect rs) (\<lambda>vs. Inr (v # vs)))"

text \<open>
  \<open>calculate_overall_performance\<close>. The returned dict
  \<open>{'detailed_scores': .., 'overall_score': .., 'weighted_scores': ..}\<close> is the triple
  of its three entries; the dicts \<open>base_scores\<close> and \<open>weighted_scores\<close> are
  association lists in insertion order.
\<close>

definition calculate_overall_performance ::
  "GameMetrics \<Rightarrow> GameData \<Rightarrow> string
     \<Rightarrow> error + ((string \<times> real) list \<times> real \<times> (string \<times> real) list)" where
  "calculate_overall_performance metrics game_data role =
     bind_err
       (collect
          [bind_err (getitem (entries game_data) ''duration'') (\<lambda>duration.
             calculate_farming_efficiency metrics duration role),
           bind_err (getitem (entries game_data) ''team_damage'') (\<lambda>team_damage.
             calculate_combat_efficiency metrics team_damage role),
           bind_err (getitem (entries game_data) ''duration'') (\<lambda>duration.
             calculate_vision_score metrics duration),
           bind_err (getitem (entries game_data) ''team_fights'') (\<lambda>team_fights.
             calculate_utility_score metrics team_fights),
           bind_err (getitem (entries game_data) ''duration'') (\<lambda>duration.
             calculate_survival_score metrics duration role),
           calculate_map_presence metrics game_data,
           calculate_space_creation metrics game_data,
           calculate_objective_focus metrics game_data,
           calculate_teamfight_impact metrics game_data])
       (\<lambda>scores.
     let base_scores =
           zip [''farm_efficiency'', ''damage_output'', ''vision_control'', ''utility'',
                ''survival'', ''map_presence'', ''space_creation'', ''objective_focus'',
                ''teamfight_impact''] scores in
     bind_err (getitem (map_of role_weights) role) (\<lambda>weights.
     bind_err
       (collect (map (\<lambda>(metric, weight).
                   bind_err (getitem (map_of base_scores) metric) (\<lambda>score.
                   Inr (metric, score * weight))) weights))
       (\<lambda>weighted_scores.
     let final_score = sum_list (map snd weighted_scores)
     in Inr (base_scores, final_score, weighted_scores))))"

text \<open>
  The fixture of \<open>tests/test_metrics.py\<close>: \<open>sample_metrics\<close> of \<open>setUp\<close> and the
  \<open>game_data\<close> of \<open>test_overall_performance\<close>, which asserts that the overall score
  of the carry lies in \<open>[0, 1]\<close>.
\<close>

definition sample_metrics :: GameMetrics where
  "sample_metrics =
     \<lparr>kills = 10, deaths = 3, assists = 15, last_hits = 300, denies = 20, gpm = 650,
      xpm = 750, hero_damage = 25000, tower_damage = 5000, hero_healing = 1500,
      stun_duration = 100, camps_stacked = 5, runes_collected = 8, wards_placed = 15,
      wards_destroyed = 5, teamfight_participation = 0.8, death_impact_score = None\<rparr>"

definition test_game_data :: GameData where
  "test_game_data =
     \<lparr>entries = map_of [(''duration'', 2400), (''team_damage'', 100000), (''team_fights'', 10)],
      lane_participation = None\<rparr>"

section \<open>utils/safety.py: the safety checker\<close>

text \<open>
  \<open>core/player.py\<close>: the attributes of a \<open>Player\<close> that the safety checker reads.
  \<open>id\<close> is the field \<open>player_id\<close>; \<open>stats\<close> (a \<open>PlayerStats\<close>) is only handed on to
  the pattern detectors, so its type is a parameter; each entry of
  \<open>performance_history\<close> is a dict.
\<close>

record 'st Player =
  player_id :: string
  stats :: 'st
  tilt_factor :: real
  performance_history :: "real dict list"

definition SafetyChecker_default_config :: "real dict" where
  "SafetyChecker_default_config = map_of
     [(''max_mmr_gain'', 5),
      (''max_consecutive_exceptional'', 3),
      (''time_window_hours'', 24),
      (''minimum_game_duration'', 25),
      (''required_teamfight_participation'', 0.6),
      (''maximum_tilt_factor'', 0.3),
      (''minimum_team_gold_difference'', 5000),
      (''suspicious_performance_threshold'', 0.95),
      (''maximum_daily_games'', 30)]"

text \<open>
  The methods that \<open>validate_performance\<close> and \<open>detect_unusual_patterns\<close> call and
  the class does not define. They are taken as functions that return a value: the
  four checks a pair \<open>(is_valid, reason)\<close>, the three pattern checks a bool.
\<close>

record 'st SafetyChecker_methods =
  check_teamfight_participation :: "'st Player \<Rightarrow> int dict \<Rightarrow> bool \<times> string"
  check_tilt_factor :: "'st Player \<Rightarrow> bool \<times> string"
  check_game_balance :: "int dict \<Rightarrow> bool \<times> string"
  check_recent_performances :: "'st Player \<Rightarrow> bool \<times> string"
  check_impossible_stats :: "'st \<Rightarrow> bool"
  check_unusual_ratios :: "'st \<Rightarrow> bool"
  check_consistency_patterns :: "'st \<Rightarrow> bool"





text \<open>\<open>detect_unusual_patterns(self, stats)\<close>.\<close>

definition detect_unusual_patterns :: "'st SafetyChecker_methods \<Rightarrow> 'st \<Rightarrow> bool" where
  "detect_unusual_patterns self player_stats =
     (let patterns = [check_impossible_stats self player_stats,
                      check_unusual_ratios self player_stats,
                      check_consistency_patterns self player_stats]
      in list_ex (\<lambda>p. p) patterns)"

text \<open>The slice \<open>xs[-5:]\<close>: the last five items, or all of a shorter list.\<close>

definition last_five :: "'a list \<Rightarrow> 'a list" where
  "last_five xs = drop (length xs - 5) xs"

text \<open>\<open>check_suspicious_patterns(self, player, performance_score)\<close>.\<close>

definition check_suspicious_patterns ::
  "real dict \<Rightarrow> 'st SafetyChecker_methods \<Rightarrow> 'st Player \<Rightarrow> real \<Rightarrow> error + (bool \<times> string)" where
  "check_suspicious_patterns config self player performance_score =
     bind_err (getitem config ''suspicious_performance_threshold'') (\<lambda>threshold.
     bind_err
       (if performance_score > threshold
        then bind_err
               (collect (map (\<lambda>p. getitem p ''score'') (last_five (performance_history player))))
               (\<lambda>recent_scores.
                  if list_all (\<lambda>score. score > threshold) recent_scores
                  then Inr (Some (False, ''Suspiciously consistent high performance''))
                  else Inr None)
        else Inr None)
       (\<lambda>returned. case returned of
          Some r \<Rightarrow> Inr r
        | None \<Rightarrow>
            if detect_unusual_patterns self (stats player)
            then Inr (False, ''Unusual stat patterns detected'')
            else Inr (True, '''')))"




section \<open>matchmaking/algorithm.py and matchmaking/quality.py: match quality\<close>

text \<open>
  \<open>core/match.py\<close>: the two teams of a \<open>Match\<close>; a team is only handed on to the
  sub-score calculators, so its type is a parameter.
\<close>

record 'team Match =
  team1 :: 'team
  team2 :: 'team

record MatchQuality =
  team_balance :: real
  role_synergy :: real
  skill_distribution :: real
  communication_compatibility :: real
  hero_synergy :: real
  overall_score :: real

definition MatchMaker_default_config :: "real dict" where
  "MatchMaker_default_config = map_of
     [(''team_size'', 5),
      (''max_mmr_spread'', 1000),
      (''min_quality_threshold'', 0.8),
      (''role_importance'', 0.3),
      (''skill_importance'', 0.3),
      (''synergy_importance'', 0.2),
      (''communication_importance'', 0.2)]"

text \<open>
  The methods of \<open>MatchMaker\<close> that \<open>evaluate_match_quality\<close> and
  \<open>calculate_team_balance\<close> call and the class does not define, taken as functions
  that return a number.
\<close>

record 'team MatchMaker_methods =
  calculate_team_mmr :: "'team \<Rightarrow> real"
  calculate_role_synergy :: "'team Match \<Rightarrow> real"
  calculate_skill_distribution :: "'team Match \<Rightarrow> real"
  evaluate_communication_compatibility :: "'team Match \<Rightarrow> real"
  calculate_hero_synergy :: "'team Match \<Rightarrow> real"

text \<open>\<open>calculate_team_balance(self, match)\<close>.\<close>

definition calculate_team_balance ::
  "real dict \<Rightarrow> 'team MatchMaker_methods \<Rightarrow> 'team Match \<Rightarrow> error + real" where
  "calculate_team_balance config self match =
     (let team1_mmr = calculate_team_mmr self (team1 match);
          team2_mmr = calculate_team_mmr self (team2 match);
          mmr_difference = \<bar>team1_mmr - team2_mmr\<bar> in
      bind_err (getitem config ''max_mmr_spread'') (\<lambda>max_mmr_spread.
      bind_err (truediv mmr_difference max_mmr_spread) (\<lambda>spread_ratio.
      let balance_score = max 0 (1 - spread_ratio)
      in Inr balance_score)))"

text \<open>\<open>MatchMaker.evaluate_match_quality(self, match)\<close>.\<close>

definition evaluate_match_quality ::
  "real dict \<Rightarrow> 'team MatchMaker_methods \<Rightarrow> 'team Match \<Rightarrow> error + MatchQuality" where
  "evaluate_match_quality config self match =
     bind_err (calculate_team_balance config self match) (\<lambda>team_balance_score.
     let role_synergy_score = calculate_role_synergy self match;
         skill_distribution_score = calculate_skill_distribution self match;
         communication = evaluate_communication_compatibility self match;
         hero_synergy_score = calculate_hero_synergy self match in
     bind_err (getitem config ''skill_importance'') (\<lambda>w_team_balance.
     bind_err (getitem config ''role_importance'') (\<lambda>w_role_synergy.
     bind_err (getitem config ''skill_importance'') (\<lambda>w_skill_distribution.
     bind_err (getitem config ''communication_importance'') (\<lambda>w_communication.
     bind_err (getitem config ''synergy_importance'') (\<lambda>w_hero_synergy.
     let overall = team_balance_score * w_team_balance
                   + role_synergy_score * w_role_synergy
                   + skill_distribution_score * w_skill_distribution
                   + communication * w_communication
                   + hero_synergy_score * w_hero_synergy
     in Inr \<lparr>team_balance = team_balance_score,
             role_synergy = role_synergy_score,
             skill_distribution = skill_distribution_score,
             communication_compatibility = communication,
             hero_synergy = hero_synergy_score,
             overall_score = overall\<rparr>))))))"

text \<open>
  \<open>QualityAssessment.calculate_overall_quality(self, metrics)\<close> of
  \<open>matchmaking/quality.py\<close> and its local weight table.
\<close>

definition quality_weights :: "(string \<times> real) list" where
  "quality_weights =
     [(''role_balance'', 0.25), (''skill_balance'', 0.25), (''hero_synergy'', 0.2),
      (''team_chemistry'', 0.15), (''playstyle_compatibility'', 0.15)]"

definition calculate_overall_quality :: "real dict \<Rightarrow> error + real" where
  "calculate_overall_quality metrics =
     bind_err
       (collect (map (\<lambda>(key, weight).
                   bind_err (getitem metrics key) (\<lambda>score. Inr (score * weight)))
                 quality_weights))
       (\<lambda>terms. Inr (sum_list terms))"

text \<open>
  A candidate match of two teams of equal rating in which every other sub-score is
  1.0, the best value of each.
\<close>

definition perfect_match_methods :: "unit MatchMaker_methods" where
  "perfect_match_methods =
     \<lparr>calculate_team_mmr = (\<lambda>_. 2500),
      calculate_role_synergy = (\<lambda>_. 1.0),
      calculate_skill_distribution = (\<lambda>_. 1.0),
      evaluate_communication_compatibility = (\<lambda>_. 1.0),
      calculate_hero_synergy = (\<lambda>_. 1.0)\<rparr>"

section \<open>matchmaking.py: the rating adjuster\<close>

text \<open>
  \<open>calculate_mmr_adjustment(player, game_data)\<close> reads \<open>game_data.victory\<close> and calls
  four functions that the module does not define; they are taken as functions that
  return a number, the fields of \<open>rating_functions\<close>.
\<close>

record GameOutcome =
  victory :: bool

record ('p, 'g) rating_functions =
  calculate_performance_score :: "'p \<Rightarrow> 'g \<Rightarrow> real"
  calculate_team_play_bonus :: "'p \<Rightarrow> 'g \<Rightarrow> real"
  calculate_role_execution :: "'p \<Rightarrow> 'g \<Rightarrow> real"
  calculate_behavior_modifier :: "'p \<Rightarrow> 'g \<Rightarrow> real"

definition calculate_mmr_adjustment ::
  "('p, 'x GameOutcome_scheme) rating_functions \<Rightarrow> 'p \<Rightarrow> 'x GameOutcome_scheme \<Rightarrow> real" where
  "calculate_mmr_adjustment fns player game_data =
     (let base_mmr = 25;
          game_outcome = 0.8 * (if victory game_data then base_mmr else - base_mmr);
          performance = calculate_performance_score fns player game_data;
          performance_modifier = 0.2 * (performance - 0.5) * base_mmr;
          team_play = calculate_team_play_bonus fns player game_data;
          role_execution = calculate_role_execution fns player game_data;
          behavior_modifier = calculate_behavior_modifier fns player game_data;
          mmr_change = (game_outcome + performance_modifier)
                       * (1 + team_play)
                       * (1 + role_execution)
                       * behavior_modifier
      in mmr_change)"

section \<open>Fixtures and predicates used by the properties\<close>

text \<open>A calculator returned, and its value lies in the closed interval \<open>[0, 1]\<close>.\<close>

definition returns_in_unit_interval :: "error + real \<Rightarrow> bool" where
  "returns_in_unit_interval r = (case r of Inl e \<Rightarrow> False | Inr v \<Rightarrow> 0 \<le> v \<and> v \<le> 1)"




text \<open>
  Example 6 of the specification: a neutral performance, no bonus, full behaviour
  modifier.
\<close>

definition neutral_rating_functions :: "(unit, GameOutcome) rating_functions" where
  "neutral_rating_functions =
     \<lparr>calculate_performance_score = (\<lambda>p g. 0.5),
      calculate_team_play_bonus = (\<lambda>p g. 0),
      calculate_role_execution = (\<lambda>p g. 0),
      calculate_behavior_modifier = (\<lambda>p g. 1.0)\<rparr>"

section \<open>Basic facts\<close>

lemma bind_err_simps [simp]:
  "bind_err (Inl e) f = Inl e"
  "bind_err (Inr v) f = f v"
  by (simp_all add: bind_err_def)

lemma getitem_upd: "getitem (m(k \<mapsto> v)) k = Inr v"
  by (simp add: getitem_def)

lemma collect_Inr: "collect (map Inr xs) = Inr xs"
  by (induction xs) simp_all

lemma returns_in_unit_interval_simps [simp]:
  "returns_in_unit_interval (Inr v) = (0 \<le> v \<and> v \<le> 1)"
  "returns_in_unit_interval (Inl e) = False"
  by (simp_all add: returns_in_unit_interval_def)

lemma default_config_lookups:
  "getitem ExceptionalAnalyzer_default_config ''exceptional_threshold'' = Inr 0.9"
  "getitem ExceptionalAnalyzer_default_config ''excellent_threshold'' = Inr 0.8"
  "getitem ExceptionalAnalyzer_default_config ''very_good_threshold'' = Inr 0.7"
  "getitem ExceptionalAnalyzer_default_config ''max_mmr_gain'' = Inr 5"
  "getitem ExceptionalAnalyzer_default_config ''min_game_duration'' = Inr 1500"
  "getitem ExceptionalAnalyzer_default_config ''min_teamfight_participation'' = Inr 0.6"
  by (simp_all add: getitem_def ExceptionalAnalyzer_default_config_def)

lemma safety_config_lookups:
  "getitem SafetyChecker_default_config ''minimum_game_duration'' = Inr 25"
  "getitem SafetyChecker_default_config ''suspicious_performance_threshold'' = Inr 0.95"
  by (simp_all add: getitem_def SafetyChecker_default_config_def)

lemma matchmaker_config_lookups:
  "getitem MatchMaker_default_config ''max_mmr_spread'' = Inr 1000"
  "getitem MatchMaker_default_config ''role_importance'' = Inr 0.3"
  "getitem MatchMaker_default_config ''skill_importance'' = Inr 0.3"
  "getitem MatchMaker_default_config ''synergy_importance'' = Inr 0.2"
  "getitem MatchMaker_default_config ''communication_importance'' = Inr 0.2"
  by (simp_all add: getitem_def MatchMaker_default_config_def)

section \<open>Weight tables\<close>

text \<open>
  The role weight tables of the performance aggregator: the five roles, and each
  table sums to 1.
\<close>

lemma role_weights_sum:
  "map fst role_weights = [''carry'', ''mid'', ''offlane'', ''soft_support'', ''hard_support'']"
  "list_all (\<lambda>(role, weights). sum_list (map snd weights) = 1) role_weights"
  by (simp_all add: role_weights_def)

text \<open>The seven \<open>game_impact\<close> weights sum to 1, and all seven are in the table.\<close>

lemma game_impact_weights_sum: "sum_list (map snd game_impact_weights) = 1"
  by (simp add: game_impact_weights_def)

lemma game_impact_weighted_sum:
  "calculate_game_impact m =
     combat_score m * 0.25 + farm_efficiency m * 0.15 + map_impact m * 0.15
     + objective_control m * 0.15 + teamfight_contribution m * 0.15
     + vision_control m * 0.08 + utility_score m * 0.07"
  by (simp add: calculate_game_impact_def game_impact_weights_def)

text \<open>The five weights of \<open>QualityAssessment.calculate_overall_quality\<close> sum to 1.\<close>

lemma quality_weights_sum: "sum_list (map snd quality_weights) = 1"
  by (simp add: quality_weights_def)

text \<open>
  \<open>MatchMaker.evaluate_match_quality\<close> under the default config: the five sub-scores
  are combined with the coefficients 0.3, 0.3, 0.3, 0.2, 0.2, \<open>skill_importance\<close>
  being used for both \<open>team_balance\<close> and \<open>skill_distribution\<close>.
\<close>

lemma evaluate_match_quality_overall:
  "\<exists>q. evaluate_match_quality MatchMaker_default_config self match = Inr q \<and>
     overall_score q = team_balance q * 0.3 + role_synergy q * 0.3
                       + skill_distribution q * 0.3
                       + communication_compatibility q * 0.2 + hero_synergy q * 0.2"
  by (simp add: evaluate_match_quality_def calculate_team_balance_def
        matchmaker_config_lookups truediv_def Let_def)

text \<open>
  C1. Every weight table used for aggregation sums to 1.0: the role tables, the
  \<open>game_impact\<close> weights, and the five top-level weights with which the match-quality
  evaluator combines its sub-scores into \<open>overall_score\<close>. The role tables and the
  \<open>game_impact\<close> weights do (lemmas above). The five coefficients of
  \<open>MatchMaker.evaluate_match_quality\<close> sum to 1.3: for two teams of equal rating with
  every other sub-score at 1.0 the overall score is 1.3.
\<close>

theorem perfect_match_overall_score:
  "evaluate_match_quality MatchMaker_default_config perfect_match_methods
     \<lparr>team1 = (), team2 = ()\<rparr>
   = Inr \<lparr>team_balance = 1, role_synergy = 1, skill_distribution = 1,
          communication_compatibility = 1, hero_synergy = 1, overall_score = 1.3\<rparr>"
  by (simp add: evaluate_match_quality_def calculate_team_balance_def
        matchmaker_config_lookups perfect_match_methods_def truediv_def Let_def)

section \<open>Range of the sub-score calculators\<close>

lemma blend_60_40:
  fixes a b :: real
  assumes "0 \<le> a" "a \<le> 1" "0 \<le> b" "b \<le> 1"
  shows "0 \<le> a * 0.6 + b * 0.4 \<and> a * 0.6 + b * 0.4 \<le> 1"
  using assms by simp

lemma blend_40_30_30:
  fixes a b c :: real
  assumes "0 \<le> a" "a \<le> 1" "0 \<le> b" "b \<le> 1" "0 \<le> c" "c \<le> 1"
  shows "0 \<le> a * 0.4 + b * 0.3 + c * 0.3 \<and> a * 0.4 + b * 0.3 + c * 0.3 \<le> 1"
  using assms by simp

text \<open>
  The calculators that clamp: for a known role, a positive duration (a positive
  teamfight count for the utility score) and non-negative counters, farm efficiency,
  combat efficiency, vision, utility, survival and space creation return a value in
  \<open>[0, 1]\<close>.
\<close>

lemma farming_efficiency_range:
  assumes "map_of role_expectations role = Some (expected_cs, expected_gpm)"
    and "0 < d" "0 \<le> last_hits m" "0 \<le> gpm m"
  shows "returns_in_unit_interval (calculate_farming_efficiency m d role)"
proof -
  have pos: "expected_cs > 0 \<and> expected_gpm > 0"
    using assms(1) by (auto simp add: role_expectations_def split: if_splits)
  show ?thesis using assms pos
    by (simp add: calculate_farming_efficiency_def truediv_def getitem_def Let_def; linarith)
qed

lemma combat_efficiency_range:
  assumes "map_of role_damage_expectations role = Some expectation"
    and "0 \<le> hero_damage m" "0 \<le> kills m" "0 \<le> assists m"
  shows "returns_in_unit_interval (calculate_combat_efficiency m team_damage role)"
proof -
  have pos: "expectation > 0"
    using assms(1) by (auto simp add: role_damage_expectations_def split: if_splits)
  have a: "0 \<le> hero_damage m / max 1 team_damage / expectation"
    using assms pos by simp
  have b: "0 \<le> (kills m + assists m) / max 1 (deaths m) / 4"
    using assms by simp
  have ne: "max 1 team_damage \<noteq> 0" "max 1 (deaths m) \<noteq> 0" "expectation \<noteq> 0"
    using pos by auto
  have eq: "calculate_combat_efficiency m team_damage role =
      Inr (min 1 (hero_damage m / max 1 team_damage / expectation) * 0.6
           + min 1 ((kills m + assists m) / max 1 (deaths m) / 4) * 0.4)"
    using assms(1) ne
    by (simp add: calculate_combat_efficiency_def truediv_def getitem_def Let_def)
  show ?thesis
    unfolding eq returns_in_unit_interval_simps
    by (rule blend_60_40) (use a b in simp_all)
qed

lemma vision_score_range:
  assumes "0 < d" "0 \<le> wards_placed m" "0 \<le> wards_destroyed m"
  shows "returns_in_unit_interval (calculate_vision_score m d)"
  using assms by (simp add: calculate_vision_score_def truediv_def Let_def)

lemma utility_score_range:
  assumes "0 < team_fights" "0 \<le> stun_duration m" "0 \<le> hero_healing m"
    "0 \<le> teamfight_participation m"
  shows "returns_in_unit_interval (calculate_utility_score m team_fights)"
proof -
  have a: "0 \<le> stun_duration m / (team_fights * 5)"
    using assms by simp
  have b: "0 \<le> hero_healing m / 5000"
    using assms by simp
  have eq: "calculate_utility_score m team_fights =
      Inr (min 1 (stun_duration m / (team_fights * 5)) * 0.4
           + min 1 (hero_healing m / 5000) * 0.3
           + min 1 (teamfight_participation m) * 0.3)"
    using assms(1) by (simp add: calculate_utility_score_def truediv_def Let_def)
  show ?thesis
    unfolding eq returns_in_unit_interval_simps
    by (rule blend_40_30_30) (use a b assms(4) in simp_all)
qed

lemma survival_score_range:
  assumes "map_of role_death_thresholds role = Some threshold"
    and "0 < d" "death_impact_score m = None"
  shows "returns_in_unit_interval (calculate_survival_score m d role)"
proof -
  have pos: "threshold > 0"
    using assms(1) by (auto simp add: role_death_thresholds_def split: if_splits)
  show ?thesis using assms pos
    by (simp add: calculate_survival_score_def truediv_def getitem_def Let_def)
qed

lemma space_creation_range:
  assumes "entries g ''duration'' = Some d"
    and "0 \<le> dict_get (entries g) ''enemy_attention_score'' 0.5"
    and "0 \<le> dict_get (entries g) ''rotations_forced'' 0" "0 \<le> tower_damage m"
  shows "returns_in_unit_interval (calculate_space_creation m g)"
proof -
  have ne: "max 1 d \<noteq> 0" by simp
  have a: "0 \<le> tower_damage m / max 1 d / 100" using assms by simp
  show ?thesis using assms ne a
    by (simp add: calculate_space_creation_def truediv_def getitem_def Let_def; linarith)
qed

text \<open>
  The blends that do not clamp, on the fixture of \<open>tests/test_metrics.py\<close>: without
  the optional keys \<open>'team_tower_damage'\<close> and \<open>'total_fight_duration'\<close> the divisor
  is 1.
\<close>

lemma teamfight_impact_test_fixture:
  "calculate_teamfight_impact sample_metrics test_game_data = Inr (758 / 25)"
  by (simp add: calculate_teamfight_impact_def truediv_def sample_metrics_def
        test_game_data_def dict_get_def)

text \<open>
  \<open>test_overall_performance\<close> asserts \<open>0 \<le> overall_score \<le> 1\<close> for this call; the
  overall score is \<open>1401641 / 2800\<close>, above 500.
\<close>

lemma overall_performance_test_fixture:
  "calculate_overall_performance sample_metrics test_game_data ''carry'' =
     Inr ([(''farm_efficiency'', 7 / 8), (''damage_output'', 29 / 35),
           (''vision_control'', 11 / 80), (''utility'', 73 / 100), (''survival'', 3 / 8),
           (''map_presence'', 3 / 20), (''space_creation'', 33 / 160),
           (''objective_focus'', 2500), (''teamfight_impact'', 758 / 25)],
          1401641 / 2800,
          [(''farm_efficiency'', 21 / 80), (''damage_output'', 87 / 350),
           (''survival'', 3 / 40), (''objective_focus'', 500)])"
  by (simp add: calculate_overall_performance_def calculate_farming_efficiency_def
        calculate_combat_efficiency_def calculate_vision_score_def
        calculate_utility_score_def calculate_survival_score_def
        calculate_map_presence_def calculate_space_creation_def
        calculate_objective_focus_def calculate_teamfight_impact_def
        truediv_def sample_metrics_def test_game_data_def dict_get_def getitem_def
        role_expectations_def role_damage_expectations_def role_death_thresholds_def
        role_weights_def Let_def)

text \<open>
  C2. For every in-domain input, every sub-score calculator returns a value in
  \<open>[0, 1]\<close>. The clamping calculators do (lemmas above). \<open>calculate_objective_focus\<close>
  does not clamp: on the fixture of the repository's own test it returns 2500.
\<close>

theorem objective_focus_test_fixture:
  "calculate_objective_focus sample_metrics test_game_data = Inr 2500
   \<and> \<not> returns_in_unit_interval (calculate_objective_focus sample_metrics test_game_data)"
  by (simp add: calculate_objective_focus_def truediv_def sample_metrics_def
        test_game_data_def dict_get_def)

section \<open>Divisors\<close>

text \<open>
  The teamfight count is not clamped before the division: with no teamfight the
  utility score raises, whatever the stats.
\<close>

lemma utility_score_no_teamfights: "calculate_utility_score m 0 = Inl ZeroDivisionError"
  by (simp add: calculate_utility_score_def truediv_def)

text \<open>
  C3. For every well-formed input with positive duration and positive team damage no
  sub-score calculator raises, every other divisor taken from the input being clamped
  to at least 1. The utility score divides by \<open>team_fights * 5\<close> as it is: on the
  stats of the test fixture and a match without teamfights it raises
  \<open>ZeroDivisionError\<close>.
\<close>

theorem utility_score_zero_division:
  "calculate_utility_score sample_metrics 0 = Inl ZeroDivisionError"
  by (simp add: calculate_utility_score_def truediv_def)

text \<open>
  C4 as stated: the farm-efficiency calculator called with a duration \<open>\<le> 0\<close> returns
  0 instead of raising. It fails at duration 0, where the calculator raises.
\<close>

theorem farming_efficiency_zero_duration_raises:
  "calculate_farming_efficiency sample_metrics 0 ''carry'' = Inl ZeroDivisionError
   \<and> calculate_farming_efficiency sample_metrics 0 ''carry'' \<noteq> Inr 0"
  by (simp add: calculate_farming_efficiency_def truediv_def sample_metrics_def
        getitem_def role_expectations_def)

text \<open>
  C4, amended. The farm-efficiency calculator has no guard on the duration. For every
  stats record and each of the five roles, called with duration 0 it raises
  \<open>ZeroDivisionError\<close>, and called with a negative duration it does not raise and
  returns \<open>(min(1, last_hits / (cs * minutes)) + min(1, gpm / expected_gpm)) / 2\<close>
  computed from the negative \<open>minutes\<close>.
\<close>

theorem farming_efficiency_nonpositive_duration:
  assumes "map_of role_expectations role = Some (expected_cs, expected_gpm)"
  shows "calculate_farming_efficiency m 0 role = Inl ZeroDivisionError
     \<and> (d < 0 \<longrightarrow> calculate_farming_efficiency m d role
            = Inr ((min 1 (last_hits m / (expected_cs * (d / 60)))
                    + min 1 (gpm m / expected_gpm)) / 2))"
proof -
  have pos: "expected_cs > 0 \<and> expected_gpm > 0"
    using assms by (auto simp add: role_expectations_def split: if_splits)
  show ?thesis using assms pos
    by (simp add: calculate_farming_efficiency_def truediv_def getitem_def Let_def)
qed

theorem farming_efficiency_nonpositive_duration_witness:
  "calculate_farming_efficiency sample_metrics 0 ''carry'' = Inl ZeroDivisionError
   \<and> calculate_farming_efficiency sample_metrics (- 2400) ''carry'' = Inr (1 / 8)"
  using farming_efficiency_nonpositive_duration
          [of "''carry''" 10 600 sample_metrics "- 2400"]
  by (simp add: role_expectations_def sample_metrics_def)

section \<open>The safety checker\<close>



text \<open>
  \<open>check_suspicious_patterns\<close> when every entry of the recent history has a score:
  it returns the rejection for consistency exactly when the current score and all of
  the (at most five) recent scores are above 0.95.
\<close>

lemma suspicious_flag_iff:
  assumes "map (\<lambda>p. p ''score'') (last_five (performance_history player)) = map Some scores"
  shows "check_suspicious_patterns SafetyChecker_default_config self player s
           = Inr (False, ''Suspiciously consistent high performance'')
         \<longleftrightarrow> 0.95 < s \<and> list_all (\<lambda>v. 0.95 < v) scores"
proof -
  have "map (\<lambda>p. getitem p ''score'') (last_five (performance_history player))
        = map Inr scores"
    using assms by (simp add: getitem_def list_eq_iff_nth_eq)
  then have "collect (map (\<lambda>p. getitem p ''score'')
                        (last_five (performance_history player))) = Inr scores"
    by (simp add: collect_Inr)
  then show ?thesis
    by (auto simp add: check_suspicious_patterns_def safety_config_lookups list_all_iff)
qed

text \<open>
  Example 3 of the specification: the history 0.97, 0.98, 0.96, 0.99, 0.97 followed
  by a new score of 0.97 is flagged.
\<close>

lemma example3_flagged:
  "check_suspicious_patterns SafetyChecker_default_config self
     \<lparr>player_id = pid, stats = st, tilt_factor = t,
      performance_history = map (\<lambda>s. [''score'' \<mapsto> s]) [0.97, 0.98, 0.96, 0.99, 0.97]\<rparr>
     0.97
   = Inr (False, ''Suspiciously consistent high performance'')"
  by (simp add: check_suspicious_patterns_def safety_config_lookups last_five_def getitem_upd)

text \<open>
  C6. \<open>check_suspicious_patterns\<close> returns the rejection for suspicious consistency
  exactly when the current score exceeds 0.95 and the last five historical scores all
  exceed 0.95; a single excellent game without such a run is not rejected. The
  example of the specification is flagged (lemma above), but so is the first game of
  a player: with an empty history \<open>all\<close> of no scores holds, and a score of 0.96 is
  rejected.
\<close>

theorem first_game_flagged:
  "check_suspicious_patterns SafetyChecker_default_config self
     \<lparr>player_id = ''new_player'', stats = st, tilt_factor = 0, performance_history = []\<rparr>
     0.96
   = Inr (False, ''Suspiciously consistent high performance'')"
  by (simp add: check_suspicious_patterns_def safety_config_lookups last_five_def)



section \<open>The exceptional-performance classifier\<close>








text \<open>The four branches of the tier assignment under the default config.\<close>

lemma determine_tier_default:
  "determine_tier_and_adjustment ExceptionalAnalyzer_default_config s m md =
     Inr (if 0.9 \<le> s \<and> 0.85 \<le> combat_score m \<and> 0.85 \<le> teamfight_contribution m
               \<and> 0.85 \<le> game_impact m
          then (''exceptional'', min 5 ((s - 0.9) * 50))
          else if 0.8 \<le> s then (''excellent'', 0)
          else if 0.7 \<le> s then (''very_good'', max (-10) ((s - 0.7) * -50))
          else (''normal'', -25))"
  by (simp add: determine_tier_and_adjustment_def default_config_lookups)

text \<open>
  C8. Under the default config, \<open>determine_tier_and_adjustment\<close> returns the tier
  \<open>exceptional\<close> if and only if the overall score is at least 0.90 and each of
  \<open>combat_score\<close>, \<open>teamfight_contribution\<close> and \<open>game_impact\<close> is at least 0.85;
  the adjustment is then \<open>min(max_mmr_gain, (overall_score - 0.9) * 50)\<close> with
  \<open>max_mmr_gain = 5\<close>.
\<close>

theorem exceptional_tier_iff:
  "((\<exists>a. determine_tier_and_adjustment ExceptionalAnalyzer_default_config s m md
            = Inr (''exceptional'', a))
      \<longleftrightarrow> (0.90 \<le> s \<and> 0.85 \<le> combat_score m \<and> 0.85 \<le> teamfight_contribution m
             \<and> 0.85 \<le> game_impact m))
   \<and> (0.90 \<le> s \<and> 0.85 \<le> combat_score m \<and> 0.85 \<le> teamfight_contribution m
         \<and> 0.85 \<le> game_impact m
       \<longrightarrow> determine_tier_and_adjustment ExceptionalAnalyzer_default_config s m md
             = Inr (''exceptional'', min 5 ((s - 0.9) * 50)))"
  by (simp add: determine_tier_default)

theorem exceptional_tier_iff_witness:
  "determine_tier_and_adjustment ExceptionalAnalyzer_default_config (19 / 20)
     \<lparr>combat_score = 0.9, farm_efficiency = 0.9, map_impact = 0.9, objective_control = 0.9,
      teamfight_contribution = 0.9, vision_control = 0.9, utility_score = 0.9,
      game_impact = 0.9\<rparr> Map.empty
   = Inr (''exceptional'', 5 / 2)"
  using exceptional_tier_iff [of "19 / 20"
     "\<lparr>combat_score = 0.9, farm_efficiency = 0.9, map_impact = 0.9, objective_control = 0.9,
      teamfight_contribution = 0.9, vision_control = 0.9, utility_score = 0.9,
      game_impact = 0.9\<rparr>" Map.empty]
  by simp

text \<open>
  C10. Under the default config, an overall score of at least 0.90 with one of
  \<open>combat_score\<close>, \<open>teamfight_contribution\<close>, \<open>game_impact\<close> below 0.85 falls through
  to the tier \<open>excellent\<close> with adjustment 0.0: never \<open>very_good\<close> or \<open>normal\<close>, and
  no penalty.
\<close>

theorem component_floor_failed_is_excellent:
  "0.90 \<le> s \<Longrightarrow>
   combat_score m < 0.85 \<or> teamfight_contribution m < 0.85 \<or> game_impact m < 0.85 \<Longrightarrow>
   determine_tier_and_adjustment ExceptionalAnalyzer_default_config s m md
     = Inr (''excellent'', 0.0)"
  by (auto simp add: determine_tier_default)

theorem component_floor_failed_is_excellent_witness:
  "determine_tier_and_adjustment ExceptionalAnalyzer_default_config (19 / 20)
     \<lparr>combat_score = 0.5, farm_efficiency = 0.9, map_impact = 0.9, objective_control = 0.9,
      teamfight_contribution = 0.9, vision_control = 0.9, utility_score = 0.9,
      game_impact = 0.9\<rparr> Map.empty
   = Inr (''excellent'', 0)"
  using component_floor_failed_is_excellent [of "19 / 20"
     "\<lparr>combat_score = 0.5, farm_efficiency = 0.9, map_impact = 0.9, objective_control = 0.9,
      teamfight_contribution = 0.9, vision_control = 0.9, utility_score = 0.9,
      game_impact = 0.9\<rparr>" Map.empty]
  by simp

section \<open>The rating adjuster\<close>

text \<open>
  C9. With the performance score, the team-play bonus, the role-execution bonus and
  the behaviour modifier as the four functions return them,
  \<open>calculate_mmr_adjustment\<close> returns
  \<open>(0.8 * (+25 if victory else -25) + 0.2 * (performance_score - 0.5) * 25)
    * (1 + team_play) * (1 + role_execution) * behavior_modifier\<close>;
  with victory, performance score 0.5, both bonuses 0 and behaviour modifier 1.0 the
  delta is 20.0.
\<close>

theorem mmr_adjustment_formula:
  "calculate_mmr_adjustment fns player game_data =
     (0.8 * (if victory game_data then 25 else - 25)
      + 0.2 * (calculate_performance_score fns player game_data - 0.5) * 25)
     * (1 + calculate_team_play_bonus fns player game_data)
     * (1 + calculate_role_execution fns player game_data)
     * calculate_behavior_modifier fns player game_data
   \<and> (victory game_data \<and> calculate_performance_score fns player game_data = 0.5
        \<and> calculate_team_play_bonus fns player game_data = 0
        \<and> calculate_role_execution fns player game_data = 0
        \<and> calculate_behavior_modifier fns player game_data = 1.0
       \<longrightarrow> calculate_mmr_adjustment fns player game_data = 20.0)"
  by (simp add: calculate_mmr_adjustment_def Let_def)

theorem mmr_adjustment_formula_witness:
  "calculate_mmr_adjustment neutral_rating_functions () \<lparr>victory = True\<rparr> = 20"
  using mmr_adjustment_formula [of neutral_rating_functions "()" "\<lparr>victory = True\<rparr>"]
  by (simp add: neutral_rating_functions_def)

end
